theory Spec2Isabelle
  imports
    Complex_Main
    "HOL-Library.Char_ord"
    "HOL-Library.List_Lexorder"
    "HOL-Library.Multiset"
begin

section \<open>Student dropout app: the orchestration script as functions\<close>

text \<open>
  The script \<^verbatim>\<open>student_dropout_smarter_app.py\<close> is one top-to-bottom pass that the UI
  framework re-runs on every interaction.  Each block of the script is embedded here as a
  function of what the block reads; a block that can raise returns a sum whose left summand
  is the exception.  Floating-point scores (probabilities, accuracies, importances) are
  read as real numbers.
\<close>

datatype py_error =
    KeyError string
  | ValueError
  | IndexError
  | Exception string

subsection \<open>Risk banner (lines 288 to 295)\<close>

text \<open>
  The three calls of the banner branch: \<^verbatim>\<open>st.error\<close> (high risk),
  \<^verbatim>\<open>st.warning\<close> (medium risk) and \<^verbatim>\<open>st.success\<close> (low risk).
\<close>

datatype risk_tier = High_risk | Medium_risk | Low_risk

definition risk_banner :: "real \<Rightarrow> risk_tier" where
  "risk_banner prob =
     (if prob > 7 / 10 then High_risk
      else if prob > 3 / 10 then Medium_risk
      else Low_risk)"

text \<open>
  \<^verbatim>\<open>if prob is not None:\<close> guards the banner: without a probability there is no tier.
\<close>

definition risk_report :: "real option \<Rightarrow> risk_tier option" where
  "risk_report prob = (case prob of None \<Rightarrow> None | Some p \<Rightarrow> Some (risk_banner p))"

subsection \<open>Data frames\<close>

text \<open>
  A pandas frame is a row count and an ordered list of named, typed columns.  The storage
  types are those the script can meet: \<^verbatim>\<open>read_csv\<close>, \<^verbatim>\<open>read_excel\<close> and the demo frame
  produce 64-bit integers and floats, unsigned 64-bit integers (values from \<open>2^63\<close> on),
  booleans and object columns; the 32-bit types are the ones line 273 names besides.
  Categorical and date columns are not produced by a loader without a dtype argument and
  are left out of the model.  A missing entry (NaN or None) is \<open>NA\<close>; it occurs in float
  and object columns only.  A float is a real number or one of the two infinities, which
  are not missing entries.
\<close>

datatype dtype = Int64 | Int32 | UInt64 | Float64 | Float32 | Bool | Object

datatype cell = I int | F real | PosInf | NegInf | S string | B bool | NA

record column =
  col_name :: string
  col_dtype :: dtype
  col_cells :: "cell list"

record dataframe =
  nrows :: nat
  columns :: "column list"

text \<open>The invariant of a frame: every column has one cell per row.\<close>

definition frame_ok :: "dataframe \<Rightarrow> bool" where
  "frame_ok df = list_all (\<lambda>c. length (col_cells c) = nrows df) (columns df)"

definition column_names :: "dataframe \<Rightarrow> string list" where
  "column_names df = map col_name (columns df)"

text \<open>\<^verbatim>\<open>df[name]\<close>: the column of that label, \<^verbatim>\<open>KeyError\<close> when there is none.\<close>

definition getitem :: "dataframe \<Rightarrow> string \<Rightarrow> py_error + column" where
  "getitem df name =
     (case find (\<lambda>c. col_name c = name) (columns df) of
        None \<Rightarrow> Inl (KeyError name)
      | Some c \<Rightarrow> Inr c)"

subsection \<open>Strings of cells\<close>

text \<open>
  \<^verbatim>\<open>astype(str)\<close> applies Python's \<^verbatim>\<open>str\<close> to every entry.  Integers print in
  decimal, booleans as \<^verbatim>\<open>True\<close> and \<^verbatim>\<open>False\<close>, a missing entry as \<^verbatim>\<open>nan\<close>, the
  infinities as \<^verbatim>\<open>inf\<close> and \<^verbatim>\<open>-inf\<close>.  The shortest-round-trip printing of a finite
  float is a parameter \<open>fmt\<close> of the model.
\<close>

definition digit_char :: "nat \<Rightarrow> char" where
  "digit_char d = ''0123456789'' ! (d mod 10)"

fun str_nat :: "nat \<Rightarrow> string" where
  "str_nat n = (if n < 10 then [digit_char n] else str_nat (n div 10) @ [digit_char n])"

declare str_nat.simps [simp del]

definition str_int :: "int \<Rightarrow> string" where
  "str_int i = (if i < 0 then CHR ''-'' # str_nat (nat (- i)) else str_nat (nat i))"

fun astype_str :: "(real \<Rightarrow> string) \<Rightarrow> cell \<Rightarrow> string" where
  "astype_str fmt (I i) = str_int i"
| "astype_str fmt (F x) = fmt x"
| "astype_str fmt PosInf = ''inf''"
| "astype_str fmt NegInf = ''-inf''"
| "astype_str fmt (S s) = s"
| "astype_str fmt (B b) = (if b then ''True'' else ''False'')"
| "astype_str fmt NA = ''nan''"

subsection \<open>Target encoding (lines 87 to 97)\<close>












subsection \<open>Feature table (lines 99 to 104)\<close>

text \<open>
  \<^verbatim>\<open>df.drop(columns=[target_col])\<close> removes every column of that label and raises
  \<^verbatim>\<open>KeyError\<close> when there is none; the rows stay.
\<close>

definition drop_column :: "dataframe \<Rightarrow> string \<Rightarrow> py_error + dataframe" where
  "drop_column df name =
     (if name \<in> set (column_names df)
      then Inr (df\<lparr>columns := filter (\<lambda>c. col_name c \<noteq> name) (columns df)\<rparr>)
      else Inl (KeyError name))"

text \<open>
  \<^verbatim>\<open>fillna(-999)\<close> writes the number \<open>-999\<close> into every missing entry: the float
  \<open>-999.0\<close> in a float column, the integer object \<open>-999\<close> in any other column.  Nothing
  else changes.
\<close>

fun is_float :: "dtype \<Rightarrow> bool" where
  "is_float Float64 = True"
| "is_float Float32 = True"
| "is_float _ = False"

fun fillna_cell :: "dtype \<Rightarrow> cell \<Rightarrow> cell" where
  "fillna_cell dt NA = (if is_float dt then F (- 999) else I (- 999))"
| "fillna_cell dt c = c"

definition fillna_column :: "column \<Rightarrow> column" where
  "fillna_column c = c\<lparr>col_cells := map (fillna_cell (col_dtype c)) (col_cells c)\<rparr>"

definition fillna :: "dataframe \<Rightarrow> dataframe" where
  "fillna df = df\<lparr>columns := map fillna_column (columns df)\<rparr>"

definition feature_table :: "dataframe \<Rightarrow> string \<Rightarrow> py_error + dataframe" where
  "feature_table df target_col =
     (case drop_column df target_col of
        Inl e \<Rightarrow> Inl e
      | Inr X \<Rightarrow> Inr (fillna X))"

text \<open>
  \<^verbatim>\<open>select_dtypes(include=[np.number])\<close> keeps the columns whose type is a subtype of
  numpy's number (all integers, signed or not, and all floats; booleans and objects are
  not); \<^verbatim>\<open>select_dtypes(include=['object','category'])\<close> keeps the object columns.
\<close>

fun is_np_number :: "dtype \<Rightarrow> bool" where
  "is_np_number Bool = False"
| "is_np_number Object = False"
| "is_np_number _ = True"

definition numeric_cols :: "dataframe \<Rightarrow> string list" where
  "numeric_cols X = map col_name (filter (\<lambda>c. is_np_number (col_dtype c)) (columns X))"

definition categorical_cols :: "dataframe \<Rightarrow> string list" where
  "categorical_cols X = map col_name (filter (\<lambda>c. col_dtype c = Object) (columns X))"

subsection \<open>The learners and the library calls\<close>

text \<open>
  The catalog: the keys of the \<^verbatim>\<open>estimators\<close> dictionary (lines 120 to 128), in its
  iteration order.  \<^verbatim>\<open>estimators[name]\<close> raises \<^verbatim>\<open>KeyError\<close> for any other name.
\<close>

definition estimators :: "string list" where
  "estimators =
     [''Logistic Regression'', ''Random Forest'', ''Gradient Boosting'', ''Decision Tree'',
      ''SVM'', ''KNN'', ''Naive Bayes'']"

text \<open>
  A score array of numpy is a vector or a matrix given by its rows; the matrix of
  \<^verbatim>\<open>coef_\<close> has one row per class and one column per feature.  The attributes a fitted
  learner may expose (\<^verbatim>\<open>hasattr\<close>) are optional fields: \<open>attr_feature_importances\<close> is
  \<^verbatim>\<open>feature_importances_\<close> and \<open>attr_coef\<close> is \<^verbatim>\<open>coef_\<close>.
\<close>

datatype ndarray = Arr1 "real list" | Arr2 "real list list"

record learner =
  attr_feature_importances :: "real list option"
  attr_coef :: "ndarray option"

text \<open>
  Fitting, predicting and scoring are the library's work.  They are parameters of the
  model: each call returns its value or the message of the exception it raises.  A fitted
  pipeline is a value of type \<open>'p\<close>.  The split of line 140 hands over the held-out
  features and labels.
\<close>

record 'p sklearn =
  sk_train_test_split :: "string + (dataframe \<times> int list)"
  sk_fit :: "string \<Rightarrow> string + 'p"
  sk_predict :: "'p \<Rightarrow> string + int list"
  sk_accuracy_score :: "int list \<Rightarrow> int list \<Rightarrow> string + real"
  sk_get_feature_names_out :: "'p \<Rightarrow> string + string list"
  sk_model_obj :: "'p \<Rightarrow> learner"

subsection \<open>Dictionaries\<close>

text \<open>
  A Python dictionary keeps its keys in insertion order: \<^verbatim>\<open>d[k] = v\<close> replaces the
  value of a key that is present, at its place, and appends a new key at the end.
\<close>

fun dict_set :: "('k \<times> 'v) list \<Rightarrow> 'k \<Rightarrow> 'v \<Rightarrow> ('k \<times> 'v) list" where
  "dict_set [] k v = [(k, v)]"
| "dict_set ((k', v') # d) k v = (if k' = k then (k, v) # d else (k', v') # dict_set d k v)"

definition dict_get :: "(string \<times> 'v) list \<Rightarrow> string \<Rightarrow> py_error + 'v" where
  "dict_get d k = (case map_of d k of None \<Rightarrow> Inl (KeyError k) | Some v \<Rightarrow> Inr v)"

definition keys :: "('k \<times> 'v) list \<Rightarrow> 'k list" where
  "keys d = map fst d"

subsection \<open>Feature names and importance scores (lines 159 to 194)\<close>

text \<open>
  The preprocessor exists when there is a numeric or a categorical column (line 137).
  With it, the names are the numeric columns followed by the one-hot names of the fitted
  encoder, or by the categorical column names when asking the encoder fails; without it,
  all columns of the feature table.
\<close>

definition has_preprocessor :: "dataframe \<Rightarrow> bool" where
  "has_preprocessor X = (numeric_cols X \<noteq> [] \<or> categorical_cols X \<noteq> [])"

definition feature_names :: "dataframe \<Rightarrow> string + string list \<Rightarrow> string list" where
  "feature_names X names_out =
     (if has_preprocessor X then
        numeric_cols X @
        (if categorical_cols X \<noteq> [] then
           (case names_out of Inr cat_names \<Rightarrow> cat_names | Inl e \<Rightarrow> categorical_cols X)
         else [])
      else column_names X)"

text \<open>
  \<^verbatim>\<open>np.mean(np.abs(coef), axis=0)\<close> adds the rows of absolute values column by column
  and divides by the number of rows.
\<close>

fun column_sums :: "real list list \<Rightarrow> real list" where
  "column_sums [] = []"
| "column_sums [r] = r"
| "column_sums (r # rs) = map2 (+) r (column_sums rs)"

definition mean_abs_axis0 :: "real list list \<Rightarrow> real list" where
  "mean_abs_axis0 rows =
     map (\<lambda>s. s / real (length rows)) (column_sums (map (map abs) rows))"

definition importance_scores :: "learner \<Rightarrow> real list option" where
  "importance_scores model =
     (case attr_feature_importances model of
        Some v \<Rightarrow> Some v
      | None \<Rightarrow>
          (case attr_coef model of
             None \<Rightarrow> None
           | Some (Arr1 v) \<Rightarrow> Some (map abs v)
           | Some (Arr2 rows) \<Rightarrow> Some (mean_abs_axis0 rows)))"

text \<open>
  The table of line 190 or 194: rows of feature and importance, sorted by importance with
  the largest first.  Rows of equal importance are kept in their order here; pandas leaves
  their order open, and no property below depends on it.
\<close>

type_synonym importance_table = "(string \<times> real) list"

definition sort_values_desc :: "importance_table \<Rightarrow> importance_table" where
  "sort_values_desc rows = sort_key (\<lambda>r. - snd r) rows"

definition importance_table :: "string list \<Rightarrow> real list \<Rightarrow> importance_table" where
  "importance_table feat_names imp =
     (if length imp = length feat_names then sort_values_desc (zip feat_names imp)
      else
        (let minlen = min (length imp) (length feat_names)
         in sort_values_desc (zip (take minlen feat_names) (take minlen imp))))"

subsection \<open>Training loop and results store (lines 139 to 206)\<close>

record result =
  accuracy :: real
  preds :: "int list"

record 'p store =
  trained_models :: "(string \<times> 'p) list"
  results :: "(string \<times> result) list"
  feature_importances :: "(string \<times> importance_table) list"

definition empty_store :: "'p store" where
  "empty_store = \<lparr>trained_models = [], results = [], feature_importances = []\<rparr>"

datatype message =
    Warning_training_failed string string
  | Success_trained nat
  | Success_saved string

text \<open>
  The body of the \<^verbatim>\<open>try\<close> for one algorithm: the store as it is when the block is
  left, and the message of the exception that ended it, if one did.  The two dictionaries
  are written only after fit, predict and score have returned.
\<close>

definition train_one ::
  "'p sklearn \<Rightarrow> dataframe \<Rightarrow> int list \<Rightarrow> string \<Rightarrow> 'p store \<Rightarrow> 'p store \<times> string option"
where
  "train_one sk X y_test name st =
     (case sk_fit sk name of
        Inl e \<Rightarrow> (st, Some e)
      | Inr pipe \<Rightarrow>
          (case sk_predict sk pipe of
             Inl e \<Rightarrow> (st, Some e)
           | Inr ps \<Rightarrow>
               (case sk_accuracy_score sk y_test ps of
                  Inl e \<Rightarrow> (st, Some e)
                | Inr acc \<Rightarrow>
                    (let st1 = st\<lparr>trained_models := dict_set (trained_models st) name pipe,
                                   results := dict_set (results st) name
                                                \<lparr>accuracy = acc, preds = ps\<rparr>\<rparr>;
                         feat_names = feature_names X (sk_get_feature_names_out sk pipe)
                     in (case importance_scores (sk_model_obj sk pipe) of
                           None \<Rightarrow> (st1, None)
                         | Some imp \<Rightarrow>
                             (st1\<lparr>feature_importances :=
                                    dict_set (feature_importances st1) name
                                      (importance_table feat_names imp)\<rparr>, None))))))"

fun train_loop ::
  "'p sklearn \<Rightarrow> dataframe \<Rightarrow> int list \<Rightarrow> string list \<Rightarrow> 'p store \<times> message list \<Rightarrow>
   py_error + 'p store \<times> message list"
where
  "train_loop sk X y_test [] (st, out) = Inr (st, out)"
| "train_loop sk X y_test (name # algos) (st, out) =
     (if name \<notin> set estimators then Inl (KeyError name)
      else
        (case train_one sk X y_test name st of
           (st', None) \<Rightarrow> train_loop sk X y_test algos (st', out)
         | (st', Some e) \<Rightarrow>
             train_loop sk X y_test algos (st', out @ [Warning_training_failed name e])))"

text \<open>
  The session state: each key is absent (\<open>None\<close>) until the first training run writes it.
\<close>

record 'p session_state =
  ss_trained_models :: "(string \<times> 'p) list option"
  ss_results :: "(string \<times> result) list option"
  ss_feature_importances :: "(string \<times> importance_table) list option"
  ss_X_test :: "dataframe option"
  ss_y_test :: "int list option"

definition new_session :: "'p session_state" where
  "new_session =
     \<lparr>ss_trained_models = None, ss_results = None, ss_feature_importances = None,
      ss_X_test = None, ss_y_test = None\<rparr>"

text \<open>The handler of the button \<^verbatim>\<open>Train selected models\<close>.\<close>

definition train_models ::
  "'p sklearn \<Rightarrow> dataframe \<Rightarrow> string list \<Rightarrow> 'p session_state \<Rightarrow>
   py_error + 'p session_state \<times> message list"
where
  "train_models sk X algos ss =
     (case sk_train_test_split sk of
        Inl e \<Rightarrow> Inl (Exception e)
      | Inr (X_test, y_test) \<Rightarrow>
          (case train_loop sk X y_test algos (empty_store, []) of
             Inl e \<Rightarrow> Inl e
           | Inr (st, out) \<Rightarrow>
               Inr (ss\<lparr>ss_trained_models := Some (trained_models st),
                        ss_results := Some (results st),
                        ss_feature_importances := Some (feature_importances st),
                        ss_X_test := Some X_test,
                        ss_y_test := Some y_test\<rparr>,
                    out @ [Success_trained (length (trained_models st))])))"

subsection \<open>Saving the best model (lines 209 to 213)\<close>

text \<open>
  Python's \<^verbatim>\<open>max\<close> with a key: \<^verbatim>\<open>ValueError\<close> on an empty sequence; otherwise the
  first element whose key no later element exceeds strictly.
\<close>

fun py_max :: "('a \<Rightarrow> real) \<Rightarrow> 'a list \<Rightarrow> py_error + 'a" where
  "py_max key [] = Inl ValueError"
| "py_max key (x # xs) = Inr (foldl (\<lambda>best z. if key z > key best then z else best) x xs)"

definition best_model_file :: string where
  "best_model_file = ''best_dropout_model.joblib''"

text \<open>
  The handler of the button \<^verbatim>\<open>Save best model\<close>, which is shown once the key
  \<^verbatim>\<open>results\<close> exists.  The durable storage is a map from file names to pipelines.
\<close>

definition save_best_model ::
  "'p session_state \<Rightarrow> (string \<rightharpoonup> 'p) \<Rightarrow> py_error + (string \<rightharpoonup> 'p) \<times> message list"
where
  "save_best_model ss files =
     (case ss_results ss of
        None \<Rightarrow> Inr (files, [])
      | Some res \<Rightarrow>
          (case py_max (\<lambda>x. accuracy (snd x)) res of
             Inl e \<Rightarrow> Inl e
           | Inr b \<Rightarrow>
               (let best = fst b in
                (case ss_trained_models ss of
                   None \<Rightarrow> Inl (KeyError ''trained_models'')
                 | Some tm \<Rightarrow>
                     (case dict_get tm best of
                        Inl e \<Rightarrow> Inl e
                      | Inr pipe \<Rightarrow>
                          Inr (files(best_model_file \<mapsto> pipe), [Success_saved best]))))))"

subsection \<open>Prediction form (lines 264 to 278)\<close>

text \<open>
  \<^verbatim>\<open>median()\<close> of a column skips missing entries and orders the others, the
  infinities at the two ends.  Of an odd number of values it is the middle one, of an
  even number the mean of the two middle ones, and of no value at all it is NaN.  The
  result is a float: a number, an infinity, or NaN (written \<open>NA\<close>).
\<close>

fun cell_number :: "cell \<Rightarrow> real option" where
  "cell_number (I i) = Some (real_of_int i)"
| "cell_number (F x) = Some x"
| "cell_number _ = None"

text \<open>
  The value at position \<open>i\<close> of the ordered column: \<open>a\<close> entries of minus infinity,
  then the finite values \<open>s\<close> in ascending order, then plus infinity.
\<close>

definition ranked :: "nat \<Rightarrow> real list \<Rightarrow> nat \<Rightarrow> cell" where
  "ranked a s i =
     (if i < a then NegInf else if i < a + length s then F (s ! (i - a)) else PosInf)"

fun mean2 :: "cell \<Rightarrow> cell \<Rightarrow> cell" where
  "mean2 (F x) (F z) = F ((x + z) / 2)"
| "mean2 NegInf PosInf = NA"
| "mean2 PosInf NegInf = NA"
| "mean2 NegInf (F z) = NegInf"
| "mean2 (F x) NegInf = NegInf"
| "mean2 NegInf NegInf = NegInf"
| "mean2 PosInf (F z) = PosInf"
| "mean2 (F x) PosInf = PosInf"
| "mean2 PosInf PosInf = PosInf"
| "mean2 _ _ = NA"

definition column_median :: "column \<Rightarrow> cell" where
  "column_median c =
     (let s = sort (List.map_filter cell_number (col_cells c));
          a = length (filter (\<lambda>v. v = NegInf) (col_cells c));
          b = length (filter (\<lambda>v. v = PosInf) (col_cells c));
          n = a + length s + b
      in if n = 0 then NA
         else if odd n then ranked a s (n div 2)
         else mean2 (ranked a s (n div 2 - 1)) (ranked a s (n div 2)))"

text \<open>\<^verbatim>\<open>unique()\<close>: the distinct values in the order of their first occurrence.\<close>

fun unique :: "'a list \<Rightarrow> 'a list" where
  "unique [] = []"
| "unique (x # xs) = x # unique (filter (\<lambda>z. z \<noteq> x) xs)"

datatype widget =
    Number_input string cell
  | Selectbox string "string list" nat

definition form_numeric :: "dtype \<Rightarrow> bool" where
  "form_numeric dt = (dt \<in> set [Int64, Float64, Int32, Float32])"

definition form_widget :: "(real \<Rightarrow> string) \<Rightarrow> column \<Rightarrow> widget" where
  "form_widget fmt c =
     (if form_numeric (col_dtype c) then Number_input (col_name c) (column_median c)
      else Selectbox (col_name c) (unique (map (astype_str fmt) (col_cells c))) 0)"

text \<open>
  Without trained models there is no form (\<open>None\<close>); with them, \<^verbatim>\<open>X.iloc[0]\<close> raises
  \<^verbatim>\<open>IndexError\<close> on a table without rows, and the form has one widget per column.
\<close>

definition prediction_form ::
  "(real \<Rightarrow> string) \<Rightarrow> 'p session_state \<Rightarrow> dataframe \<Rightarrow> py_error + widget list option"
where
  "prediction_form fmt ss X =
     (case ss_trained_models ss of
        None \<Rightarrow> Inr None
      | Some tm \<Rightarrow>
          (if nrows X = 0 then Inl IndexError
           else Inr (Some (map (form_widget fmt) (columns X)))))"

section \<open>Statements and inputs for the properties\<close>

subsection \<open>Feature table\<close>

text \<open>The columns of the dataset that are not the target, as loaded.\<close>

definition kept_columns :: "dataframe \<Rightarrow> string \<Rightarrow> column list" where
  "kept_columns df target_col = filter (\<lambda>c. col_name c \<noteq> target_col) (columns df)"

text \<open>
  The sentinel rule in the words of the specification, for a column as loaded and the
  same column of the feature table: no entry is missing, an entry that was missing holds
  the number \<open>-999\<close> in a numeric column and the string \<^verbatim>\<open>-999\<close> in any other column.
\<close>

definition sentinel_as_stated :: "column \<Rightarrow> column \<Rightarrow> bool" where
  "sentinel_as_stated raw filled =
     (list_all (\<lambda>b. b \<noteq> NA) (col_cells filled) \<and>
      list_all2
        (\<lambda>a b. a = NA \<longrightarrow>
           (if is_np_number (col_dtype raw) then cell_number b = Some (- 999)
            else b = S ''-999''))
        (col_cells raw) (col_cells filled))"

text \<open>A small dataset with a missing grade and a missing financial status.\<close>

definition demo :: dataframe where
  "demo = \<lparr>nrows = 2, columns =
     [\<lparr>col_name = ''CGPA'', col_dtype = Float64, col_cells = [F 7, NA]\<rparr>,
      \<lparr>col_name = ''Dropout_Risk'', col_dtype = Int64, col_cells = [I 0, I 1]\<rparr>,
      \<lparr>col_name = ''Financial_Status'', col_dtype = Object,
       col_cells = [NA, S ''low'']\<rparr>]\<rparr>"

definition demo_X :: dataframe where
  "demo_X = \<lparr>nrows = 2, columns =
     [\<lparr>col_name = ''CGPA'', col_dtype = Float64, col_cells = [F 7, F (- 999)]\<rparr>,
      \<lparr>col_name = ''Financial_Status'', col_dtype = Object,
       col_cells = [I (- 999), S ''low'']\<rparr>]\<rparr>"

subsection \<open>Target columns\<close>




definition two_floats :: "real \<Rightarrow> string" where
  "two_floats x = (if x = 1 then ''1.0'' else ''0.0'')"





subsection \<open>Training runs\<close>

text \<open>
  What fit, predict and score give for one algorithm: the fitted pipeline with its result
  entry, or the message of the first exception among the three calls.
\<close>

definition trained :: "'p sklearn \<Rightarrow> int list \<Rightarrow> string \<Rightarrow> string + 'p \<times> result" where
  "trained sk y_test name =
     (case sk_fit sk name of
        Inl e \<Rightarrow> Inl e
      | Inr pipe \<Rightarrow>
          (case sk_predict sk pipe of
             Inl e \<Rightarrow> Inl e
           | Inr ps \<Rightarrow>
               (case sk_accuracy_score sk y_test ps of
                  Inl e \<Rightarrow> Inl e
                | Inr acc \<Rightarrow> Inr (pipe, \<lparr>accuracy = acc, preds = ps\<rparr>))))"

text \<open>The importance table an algorithm gets, if it trains and exposes scores.\<close>

definition importance_of ::
  "'p sklearn \<Rightarrow> dataframe \<Rightarrow> int list \<Rightarrow> string \<Rightarrow> importance_table option"
where
  "importance_of sk X y_test name =
     (case trained sk y_test name of
        Inl e \<Rightarrow> None
      | Inr pr \<Rightarrow>
          (case importance_scores (sk_model_obj sk (fst pr)) of
             None \<Rightarrow> None
           | Some imp \<Rightarrow>
               Some (importance_table
                       (feature_names X (sk_get_feature_names_out sk (fst pr))) imp)))"

text \<open>
  Position \<open>k\<close> holds the first maximum of a list under a key: no element has a larger
  key and every earlier element has a strictly smaller one.
\<close>

definition first_max :: "('a \<Rightarrow> real) \<Rightarrow> 'a list \<Rightarrow> nat \<Rightarrow> bool" where
  "first_max key xs k =
     (k < length xs \<and>
      (\<forall>j < length xs. key (xs ! j) \<le> key (xs ! k)) \<and>
      (\<forall>j < k. key (xs ! j) < key (xs ! k)))"

subsection \<open>A library for examples\<close>

text \<open>
  A stand-in for the library in which a fitted pipeline is known by the name of its
  algorithm.  Fitting the support vector classifier fails, predicting with the nearest
  neighbours fails; the forest exposes importances, one of them too many for the three
  feature names, the regression exposes a coefficient matrix, the others nothing.
\<close>

definition demo_sk :: "string sklearn" where
  "demo_sk =
     \<lparr>sk_train_test_split = Inr (demo_X, [0, 1]),
      sk_fit = (\<lambda>name. if name = ''SVM'' then Inl ''fit failed'' else Inr name),
      sk_predict = (\<lambda>pipe. if pipe = ''KNN'' then Inl ''predict failed'' else Inr [0, 1]),
      sk_accuracy_score = (\<lambda>y_true y_pred. Inr (if y_true = y_pred then 1 else 0)),
      sk_get_feature_names_out =
        (\<lambda>pipe. Inr [''Financial_Status_-999'', ''Financial_Status_low'']),
      sk_model_obj =
        (\<lambda>pipe.
           if pipe = ''Random Forest'' then
             \<lparr>attr_feature_importances = Some [1 / 5, 1 / 2, 1 / 5, 1 / 10], attr_coef = None\<rparr>
           else if pipe = ''Logistic Regression'' then
             \<lparr>attr_feature_importances = None,
              attr_coef = Some (Arr2 [[- 2, 1, 1 / 2], [0, - 3, 1 / 2]])\<rparr>
           else \<lparr>attr_feature_importances = None, attr_coef = None\<rparr>)\<rparr>"

definition demo_algos :: "string list" where
  "demo_algos = [''Naive Bayes'', ''SVM'', ''KNN'', ''Logistic Regression'']"

text \<open>
  The choice of the best algorithm in the words of the specification: the first name of
  the catalog whose entry has the largest accuracy of all entries.
\<close>

definition best_by_catalog :: "(string \<times> result) list \<Rightarrow> string option" where
  "best_by_catalog res =
     find (\<lambda>name. case map_of res name of
                     None \<Rightarrow> False
                   | Some r \<Rightarrow> list_all (\<lambda>x. accuracy (snd x) \<le> accuracy r) res)
          estimators"

text \<open>A selection made in another order than the catalog's, and the session it leaves.\<close>

definition tie_algos :: "string list" where
  "tie_algos = [''Naive Bayes'', ''Decision Tree'']"

definition tie_results :: "(string \<times> result) list" where
  "tie_results =
     [(''Naive Bayes'', \<lparr>accuracy = 1, preds = [0, 1]\<rparr>),
      (''Decision Tree'', \<lparr>accuracy = 1, preds = [0, 1]\<rparr>)]"

definition tie_session :: "string session_state" where
  "tie_session =
     \<lparr>ss_trained_models = Some [(''Naive Bayes'', ''Naive Bayes''),
                                (''Decision Tree'', ''Decision Tree'')],
      ss_results = Some tie_results,
      ss_feature_importances = Some [],
      ss_X_test = Some demo_X,
      ss_y_test = Some [0, 1]\<rparr>"

subsection \<open>A column of large identifiers\<close>

text \<open>
  A dataset whose identifier column holds values from \<open>2^63\<close> on, which the CSV reader
  stores as unsigned 64-bit integers, and the session after a training run on it.
\<close>

definition id_frame :: dataframe where
  "id_frame = \<lparr>nrows = 2, columns =
     [\<lparr>col_name = ''Student_ID'', col_dtype = UInt64,
       col_cells = [I 18446744073709551615, I 9223372036854775808]\<rparr>,
      \<lparr>col_name = ''Dropout_Risk'', col_dtype = Int64, col_cells = [I 0, I 1]\<rparr>]\<rparr>"

definition id_X :: dataframe where
  "id_X = \<lparr>nrows = 2, columns =
     [\<lparr>col_name = ''Student_ID'', col_dtype = UInt64,
       col_cells = [I 18446744073709551615, I 9223372036854775808]\<rparr>]\<rparr>"

definition id_session :: "string session_state" where
  "id_session =
     \<lparr>ss_trained_models = Some [(''Naive Bayes'', ''Naive Bayes'')],
      ss_results = Some [(''Naive Bayes'', \<lparr>accuracy = 1, preds = [0, 1]\<rparr>)],
      ss_feature_importances = Some [],
      ss_X_test = Some id_X,
      ss_y_test = Some [0, 1]\<rparr>"

section \<open>Properties\<close>

subsection \<open>Risk tiering\<close>

text \<open>
  Claim C1.  The tier is a function of the probability alone: above 0.7 it is the high tier,
  above 0.3 and up to 0.7 the medium tier, and up to 0.3 the low tier; the two boundary
  values 0.7 and 0.3 fall into the medium and the low tier.
\<close>

theorem risk_banner_tiers:
  "(p > 7 / 10 \<longrightarrow> risk_banner p = High_risk) \<and>
   (3 / 10 < p \<and> p \<le> 7 / 10 \<longrightarrow> risk_banner p = Medium_risk) \<and>
   (p \<le> 3 / 10 \<longrightarrow> risk_banner p = Low_risk) \<and>
   risk_banner (7 / 10) = Medium_risk \<and>
   risk_banner (3 / 10) = Low_risk \<and>
   risk_report (Some p) = Some (risk_banner p)"
  by (simp add: risk_banner_def risk_report_def)

theorem risk_banner_tiers_witness:
  "risk_banner (9 / 10) = High_risk \<and>
   risk_banner (5 / 10) = Medium_risk \<and>
   risk_banner (1 / 10) = Low_risk"
proof -
  have hi: "risk_banner (9 / 10) = High_risk"
    using risk_banner_tiers [of "9 / 10"] by simp
  have mid: "risk_banner (5 / 10) = Medium_risk"
    using risk_banner_tiers [of "5 / 10"] by simp
  have lo: "risk_banner (1 / 10) = Low_risk"
    using risk_banner_tiers [of "1 / 10"] by simp
  from hi mid lo show ?thesis by simp
qed

subsection \<open>Feature table\<close>

lemma fillna_cell_not_NA: "fillna_cell dt c \<noteq> NA" "NA \<noteq> fillna_cell dt c"
  by (cases c; simp)+

lemma fillna_cell_keeps: "c \<noteq> NA \<Longrightarrow> fillna_cell dt c = c"
  by (cases c) auto

lemma fillna_column_fields:
  "col_name (fillna_column c) = col_name c"
  "col_dtype (fillna_column c) = col_dtype c"
  "length (col_cells (fillna_column c)) = length (col_cells c)"
  by (simp_all add: fillna_column_def)

lemma fillna_column_nth:
  "i < length (col_cells c) \<Longrightarrow>
   col_cells (fillna_column c) ! i = fillna_cell (col_dtype c) (col_cells c ! i)"
  by (simp add: fillna_column_def)

lemma fillna_column_no_NA: "NA \<notin> set (col_cells (fillna_column c))"
  by (auto simp: fillna_column_def fillna_cell_not_NA)

lemma feature_table_Inr:
  "target_col \<in> set (column_names df) \<Longrightarrow>
   feature_table df target_col =
     Inr \<lparr>nrows = nrows df,
          columns = map fillna_column (filter (\<lambda>c. col_name c \<noteq> target_col) (columns df))\<rparr>"
  by (simp add: feature_table_def drop_column_def fillna_def)

lemma feature_table_Inl:
  "target_col \<notin> set (column_names df) \<Longrightarrow>
   feature_table df target_col = Inl (KeyError target_col)"
  by (simp add: feature_table_def drop_column_def)

lemma feature_table_cases:
  "feature_table df target_col = Inr X \<Longrightarrow>
   X = \<lparr>nrows = nrows df,
        columns = map fillna_column (filter (\<lambda>c. col_name c \<noteq> target_col) (columns df))\<rparr>"
  by (cases "target_col \<in> set (column_names df)")
    (simp_all add: feature_table_Inr feature_table_Inl)

lemma demo_feature_table: "feature_table demo ''Dropout_Risk'' = Inr demo_X"
  by (simp add: feature_table_def drop_column_def fillna_def fillna_column_def
      column_names_def demo_def demo_X_def)

text \<open>
  Claim C8.  Whatever column of the dataset is chosen as target, the feature table exists,
  its columns are the dataset's columns without the target, in the same order, and it has
  the dataset's row count.  Every column that stays keeps its name, its storage type, its
  length and all its entries that are not missing.
\<close>

theorem feature_table_frame:
  assumes "target_col \<in> set (column_names df)"
  shows "\<exists>X. feature_table df target_col = Inr X \<and>
           column_names X = filter (\<lambda>n. n \<noteq> target_col) (column_names df) \<and>
           nrows X = nrows df \<and>
           (frame_ok df \<longrightarrow> frame_ok X) \<and>
           columns X = map fillna_column (kept_columns df target_col) \<and>
           (\<forall>c \<in> set (columns df). col_name c \<noteq> target_col \<longrightarrow>
              col_name (fillna_column c) = col_name c \<and>
              col_dtype (fillna_column c) = col_dtype c \<and>
              length (col_cells (fillna_column c)) = length (col_cells c) \<and>
              (\<forall>i < length (col_cells c). col_cells c ! i \<noteq> NA \<longrightarrow>
                 col_cells (fillna_column c) ! i = col_cells c ! i))"
proof -
  let ?kept = "filter (\<lambda>c. col_name c \<noteq> target_col) (columns df)"
  let ?X = "\<lparr>nrows = nrows df, columns = map fillna_column ?kept\<rparr>"
  have run: "feature_table df target_col = Inr ?X"
    using assms by (rule feature_table_Inr)
  have names: "column_names ?X = filter (\<lambda>n. n \<noteq> target_col) (column_names df)"
    by (simp add: column_names_def filter_map comp_def fillna_column_fields)
  have ok: "frame_ok df \<longrightarrow> frame_ok ?X"
    by (auto simp: frame_ok_def list_all_iff fillna_column_fields)
  have cols: "\<forall>c \<in> set (columns df). col_name c \<noteq> target_col \<longrightarrow>
              col_name (fillna_column c) = col_name c \<and>
              col_dtype (fillna_column c) = col_dtype c \<and>
              length (col_cells (fillna_column c)) = length (col_cells c) \<and>
              (\<forall>i < length (col_cells c). col_cells c ! i \<noteq> NA \<longrightarrow>
                 col_cells (fillna_column c) ! i = col_cells c ! i)"
    by (simp add: fillna_column_fields fillna_column_nth fillna_cell_keeps)
  from run names ok cols show ?thesis by (simp add: kept_columns_def)
qed

theorem feature_table_frame_witness:
  "feature_table demo ''Dropout_Risk'' = Inr demo_X \<and>
   column_names demo_X = [''CGPA'', ''Financial_Status''] \<and>
   nrows demo_X = nrows demo"
proof -
  have "''Dropout_Risk'' \<in> set (column_names demo)"
    by (simp add: demo_def column_names_def)
  from feature_table_frame[OF this]
  obtain X where X: "feature_table demo ''Dropout_Risk'' = Inr X"
    and names: "column_names X = filter (\<lambda>n. n \<noteq> ''Dropout_Risk'') (column_names demo)"
    and rows: "nrows X = nrows demo"
    by blast
  from X have "X = demo_X"
    by (simp add: demo_feature_table)
  with X names rows show ?thesis
    by (simp add: demo_def column_names_def)
qed

text \<open>
  Claim C3, as the code has it.  After resolution no entry of a feature column is
  missing.  An entry that was missing holds the number \<open>-999\<close>: as a float in a float
  column, and as the integer \<open>-999\<close> in every other column, an object column included.
  It is never the string \<^verbatim>\<open>-999\<close>.
\<close>

theorem feature_table_sentinel:
  assumes "feature_table df target_col = Inr X"
  shows "(\<forall>c \<in> set (columns X). NA \<notin> set (col_cells c)) \<and>
         length (columns X) = length (kept_columns df target_col) \<and>
         (\<forall>k < length (kept_columns df target_col).
            \<forall>i < length (col_cells (kept_columns df target_col ! k)).
              col_cells (kept_columns df target_col ! k) ! i = NA \<longrightarrow>
                col_cells (columns X ! k) ! i =
                  (if is_float (col_dtype (kept_columns df target_col ! k))
                   then F (- 999) else I (- 999)) \<and>
                cell_number (col_cells (columns X ! k) ! i) = Some (- 999) \<and>
                col_cells (columns X ! k) ! i \<noteq> S ''-999'')"
proof -
  let ?kept = "kept_columns df target_col"
  have X: "columns X = map fillna_column ?kept"
    using feature_table_cases[OF assms] by (simp add: kept_columns_def)
  have no_na: "\<forall>c \<in> set (columns X). NA \<notin> set (col_cells c)"
    using X by (auto simp: fillna_column_no_NA)
  have len: "length (columns X) = length ?kept"
    using X by simp
  have filled: "col_cells (columns X ! k) ! i =
                  (if is_float (col_dtype (?kept ! k)) then F (- 999) else I (- 999)) \<and>
                cell_number (col_cells (columns X ! k) ! i) = Some (- 999) \<and>
                col_cells (columns X ! k) ! i \<noteq> S ''-999''"
    if k: "k < length ?kept" and i: "i < length (col_cells (?kept ! k))"
      and na: "col_cells (?kept ! k) ! i = NA" for k i
  proof -
    have "col_cells (columns X ! k) ! i = fillna_cell (col_dtype (?kept ! k)) NA"
      using X k i na by (simp add: fillna_column_nth)
    then show ?thesis by simp
  qed
  from no_na len filled show ?thesis by blast
qed

theorem feature_table_sentinel_witness:
  "col_cells (columns demo_X ! 0) ! 1 = F (- 999) \<and>
   col_cells (columns demo_X ! 1) ! 0 = I (- 999)"
proof -
  have kept: "kept_columns demo ''Dropout_Risk'' =
      [\<lparr>col_name = ''CGPA'', col_dtype = Float64, col_cells = [F 7, NA]\<rparr>,
       \<lparr>col_name = ''Financial_Status'', col_dtype = Object,
        col_cells = [NA, S ''low'']\<rparr>]"
    by (simp add: kept_columns_def demo_def)
  note fact = feature_table_sentinel[OF demo_feature_table, unfolded kept]
  have a: "col_cells (columns demo_X ! 0) ! 1 = F (- 999)"
    using fact[THEN conjunct2, THEN conjunct2, rule_format, of 0 1] by simp
  have b: "col_cells (columns demo_X ! 1) ! 0 = I (- 999)"
    using fact[THEN conjunct2, THEN conjunct2, rule_format, of 1 0] by simp
  from a b show ?thesis by simp
qed

text \<open>
  The claim as the specification words it fails on the demo dataset: the missing financial
  status of the first row becomes the integer, not its string form.
\<close>

theorem sentinel_string_counterexample:
  "feature_table demo ''Dropout_Risk'' = Inr demo_X \<and>
   \<not> list_all2 sentinel_as_stated (kept_columns demo ''Dropout_Risk'') (columns demo_X)"
  by (simp add: feature_table_def drop_column_def fillna_def fillna_column_def
      column_names_def demo_def demo_X_def kept_columns_def sentinel_as_stated_def)

subsection \<open>Target encoding\<close>























subsection \<open>Importance scores and tables\<close>









subsection \<open>Dictionaries and the maximum\<close>

lemma dict_set_map_of: "map_of (dict_set d k v) = (map_of d)(k \<mapsto> v)"
  by (induction d k v rule: dict_set.induct) (auto simp: fun_eq_iff)

lemma dict_set_keys:
  "keys (dict_set d k v) = (if k \<in> set (keys d) then keys d else keys d @ [k])"
  by (induction d k v rule: dict_set.induct) (auto simp: keys_def)


lemma map_of_keys: "(map_of d k = None) = (k \<notin> set (keys d))"
  by (simp add: keys_def map_of_eq_None_iff)

lemma first_max_step:
  assumes "first_max key pre k"
  shows "\<exists>k'. first_max key (pre @ [z]) k' \<and>
              (if key z > key (pre ! k) then z else pre ! k) = (pre @ [z]) ! k'"
proof (cases "key z > key (pre ! k)")
  case True
  have "first_max key (pre @ [z]) (length pre)"
    unfolding first_max_def
  proof (intro conjI allI impI)
    show "length pre < length (pre @ [z])" by simp
  next
    fix j assume "j < length (pre @ [z])"
    then consider "j < length pre" | "j = length pre" by fastforce
    then show "key ((pre @ [z]) ! j) \<le> key ((pre @ [z]) ! length pre)"
    proof cases
      case 1
      then have "key (pre ! j) \<le> key (pre ! k)"
        using assms by (simp add: first_max_def)
      with True 1 show ?thesis by (simp add: nth_append)
    next
      case 2
      then show ?thesis by simp
    qed
  next
    fix j assume j: "j < length pre"
    then have "key (pre ! j) \<le> key (pre ! k)"
      using assms by (simp add: first_max_def)
    with True j show "key ((pre @ [z]) ! j) < key ((pre @ [z]) ! length pre)"
      by (simp add: nth_append)
  qed
  with True show ?thesis by auto
next
  case False
  have k: "k < length pre" using assms by (simp add: first_max_def)
  have "first_max key (pre @ [z]) k"
    unfolding first_max_def
  proof (intro conjI allI impI)
    show "k < length (pre @ [z])" using k by simp
  next
    fix j assume "j < length (pre @ [z])"
    then consider "j < length pre" | "j = length pre" by fastforce
    then show "key ((pre @ [z]) ! j) \<le> key ((pre @ [z]) ! k)"
    proof cases
      case 1
      then have "key (pre ! j) \<le> key (pre ! k)"
        using assms by (simp add: first_max_def)
      with 1 k show ?thesis by (simp add: nth_append)
    next
      case 2
      with False k show ?thesis by (simp add: nth_append)
    qed
  next
    fix j assume j: "j < k"
    then have "key (pre ! j) < key (pre ! k)"
      using assms by (simp add: first_max_def)
    with j k show "key ((pre @ [z]) ! j) < key ((pre @ [z]) ! k)"
      by (simp add: nth_append)
  qed
  with False k show ?thesis by (auto simp: nth_append)
qed

lemma first_max_foldl:
  "first_max key pre k \<Longrightarrow>
   \<exists>k'. first_max key (pre @ xs) k' \<and>
        foldl (\<lambda>best z. if key z > key best then z else best) (pre ! k) xs = (pre @ xs) ! k'"
proof (induction xs arbitrary: pre k)
  case Nil
  then show ?case by auto
next
  case (Cons z zs)
  from first_max_step[OF Cons.prems, of z]
  obtain k1 where k1: "first_max key (pre @ [z]) k1"
    and eq: "(if key z > key (pre ! k) then z else pre ! k) = (pre @ [z]) ! k1"
    by blast
  from Cons.IH[OF k1]
  obtain k' where "first_max key ((pre @ [z]) @ zs) k'"
    and "foldl (\<lambda>best z. if key z > key best then z else best) ((pre @ [z]) ! k1) zs =
         ((pre @ [z]) @ zs) ! k'"
    by blast
  then show ?case
    using eq by (intro exI[of _ k']) simp
qed

lemma py_max_first_max:
  assumes "xs \<noteq> []"
  shows "\<exists>k. first_max key xs k \<and> py_max key xs = Inr (xs ! k)"
proof -
  obtain x rest where xs: "xs = x # rest"
    using assms by (cases xs) auto
  have "first_max key [x] 0"
    by (simp add: first_max_def)
  from first_max_foldl[OF this, of rest] xs show ?thesis
    by auto
qed

subsection \<open>One pass of the training loop\<close>

lemma train_one_failed:
  "trained sk y_test name = Inl e \<Longrightarrow> train_one sk X y_test name st = (st, Some e)"
  by (auto simp: trained_def train_one_def split: sum.splits)

lemma train_one_message:
  "snd (train_one sk X y_test name st) =
     (case trained sk y_test name of Inl e \<Rightarrow> Some e | Inr pr \<Rightarrow> None)"
  by (auto simp: trained_def train_one_def Let_def split: sum.splits option.splits)

lemma train_one_models:
  "trained_models (fst (train_one sk X y_test name st)) =
     (case trained sk y_test name of
        Inl e \<Rightarrow> trained_models st
      | Inr pr \<Rightarrow> dict_set (trained_models st) name (fst pr))"
  by (auto simp: trained_def train_one_def Let_def split: sum.splits option.splits)

lemma train_one_results:
  "results (fst (train_one sk X y_test name st)) =
     (case trained sk y_test name of
        Inl e \<Rightarrow> results st
      | Inr pr \<Rightarrow> dict_set (results st) name (snd pr))"
  by (auto simp: trained_def train_one_def Let_def split: sum.splits option.splits)

lemma train_one_importances:
  "feature_importances (fst (train_one sk X y_test name st)) =
     (case importance_of sk X y_test name of
        None \<Rightarrow> feature_importances st
      | Some t \<Rightarrow> dict_set (feature_importances st) name t)"
  by (auto simp: importance_of_def trained_def train_one_def Let_def
      split: sum.splits option.splits)

lemma train_loop_Cons:
  "name \<in> set estimators \<Longrightarrow>
   train_loop sk X y_test (name # algos) (st, out) =
     train_loop sk X y_test algos
       (fst (train_one sk X y_test name st),
        out @ (case trained sk y_test name of
                 Inl e \<Rightarrow> [Warning_training_failed name e]
               | Inr pr \<Rightarrow> []))"
proof -
  assume mem: "name \<in> set estimators"
  obtain st1 msg where one: "train_one sk X y_test name st = (st1, msg)"
    by (cases "train_one sk X y_test name st")
  have msg: "msg = (case trained sk y_test name of Inl e \<Rightarrow> Some e | Inr pr \<Rightarrow> None)"
    using train_one_message[of sk X y_test name st] one by simp
  show ?thesis
    using mem one msg by (cases "trained sk y_test name") simp_all
qed

lemma train_loop_not_in_catalog:
  "name \<notin> set estimators \<Longrightarrow>
   train_loop sk X y_test (name # algos) (st, out) = Inl (KeyError name)"
  by simp

lemma train_loop_total:
  "set algos \<subseteq> set estimators \<Longrightarrow>
   \<exists>st' out'. train_loop sk X y_test algos (st, out) = Inr (st', out')"
proof (induction algos arbitrary: st out)
  case Nil
  then show ?case by simp
next
  case (Cons name algos)
  then have "name \<in> set estimators" and "set algos \<subseteq> set estimators" by auto
  then show ?case
    using Cons.IH by (simp only: train_loop_Cons)
qed

lemma train_loop_in_catalog:
  "train_loop sk X y_test algos (st, out) = Inr (st', out') \<Longrightarrow> set algos \<subseteq> set estimators"
proof (induction algos arbitrary: st out)
  case Nil
  then show ?case by simp
next
  case (Cons name algos)
  have mem: "name \<in> set estimators"
    using Cons.prems by (cases "name \<in> set estimators") simp_all
  from Cons.prems have "set algos \<subseteq> set estimators"
    unfolding train_loop_Cons[OF mem] by (rule Cons.IH)
  with mem show ?case by simp
qed

lemma train_loop_models:
  "train_loop sk X y_test algos (st, out) = Inr (st', out') \<Longrightarrow>
   map_of (trained_models st') n =
     (if n \<in> set algos then
        (case trained sk y_test n of
           Inl e \<Rightarrow> map_of (trained_models st) n
         | Inr pr \<Rightarrow> Some (fst pr))
      else map_of (trained_models st) n)"
proof (induction algos arbitrary: st out)
  case Nil
  then show ?case by simp
next
  case (Cons name algos)
  have mem: "name \<in> set estimators"
    using Cons.prems by (cases "name \<in> set estimators") simp_all
  note IH = Cons.IH[OF Cons.prems[unfolded train_loop_Cons[OF mem]]]
  show ?case
    unfolding IH train_one_models
    by (cases "trained sk y_test name"; cases "trained sk y_test n")
      (auto simp: dict_set_map_of)
qed

lemma train_loop_results:
  "train_loop sk X y_test algos (st, out) = Inr (st', out') \<Longrightarrow>
   map_of (results st') n =
     (if n \<in> set algos then
        (case trained sk y_test n of
           Inl e \<Rightarrow> map_of (results st) n
         | Inr pr \<Rightarrow> Some (snd pr))
      else map_of (results st) n)"
proof (induction algos arbitrary: st out)
  case Nil
  then show ?case by simp
next
  case (Cons name algos)
  have mem: "name \<in> set estimators"
    using Cons.prems by (cases "name \<in> set estimators") simp_all
  note IH = Cons.IH[OF Cons.prems[unfolded train_loop_Cons[OF mem]]]
  show ?case
    unfolding IH train_one_results
    by (cases "trained sk y_test name"; cases "trained sk y_test n")
      (auto simp: dict_set_map_of)
qed

lemma train_loop_importances:
  "train_loop sk X y_test algos (st, out) = Inr (st', out') \<Longrightarrow>
   map_of (feature_importances st') n =
     (if n \<in> set algos then
        (case importance_of sk X y_test n of
           None \<Rightarrow> map_of (feature_importances st) n
         | Some t \<Rightarrow> Some t)
      else map_of (feature_importances st) n)"
proof (induction algos arbitrary: st out)
  case Nil
  then show ?case by simp
next
  case (Cons name algos)
  have mem: "name \<in> set estimators"
    using Cons.prems by (cases "name \<in> set estimators") simp_all
  note IH = Cons.IH[OF Cons.prems[unfolded train_loop_Cons[OF mem]]]
  show ?case
    unfolding IH train_one_importances
    by (cases "importance_of sk X y_test name"; cases "importance_of sk X y_test n")
      (auto simp: dict_set_map_of)
qed

lemma train_loop_messages:
  "train_loop sk X y_test algos (st, out) = Inr (st', out') \<Longrightarrow>
   out' = out @ concat (map (\<lambda>n. case trained sk y_test n of
                                   Inl e \<Rightarrow> [Warning_training_failed n e]
                                 | Inr pr \<Rightarrow> []) algos)"
proof (induction algos arbitrary: st out)
  case Nil
  then show ?case by simp
next
  case (Cons name algos)
  have mem: "name \<in> set estimators"
    using Cons.prems by (cases "name \<in> set estimators") simp_all
  note IH = Cons.IH[OF Cons.prems[unfolded train_loop_Cons[OF mem]]]
  show ?case
    unfolding IH by simp
qed

lemma train_loop_same_keys:
  "train_loop sk X y_test algos (st, out) = Inr (st', out') \<Longrightarrow>
   keys (trained_models st) = keys (results st) \<Longrightarrow>
   keys (trained_models st') = keys (results st')"
proof (induction algos arbitrary: st out)
  case Nil
  then show ?case by simp
next
  case (Cons name algos)
  have mem: "name \<in> set estimators"
    using Cons.prems(1) by (cases "name \<in> set estimators") simp_all
  have "keys (trained_models (fst (train_one sk X y_test name st))) =
        keys (results (fst (train_one sk X y_test name st)))"
    unfolding train_one_models train_one_results
    using Cons.prems(2) by (cases "trained sk y_test name") (simp_all add: dict_set_keys)
  with Cons.IH[OF Cons.prems(1)[unfolded train_loop_Cons[OF mem]]] show ?case .
qed

lemma train_loop_order:
  "train_loop sk X y_test algos (st, out) = Inr (st', out') \<Longrightarrow>
   distinct algos \<Longrightarrow> set algos \<inter> set (keys (results st)) = {} \<Longrightarrow>
   keys (results st') =
     keys (results st) @ filter (\<lambda>n. \<exists>pr. trained sk y_test n = Inr pr) algos"
proof (induction algos arbitrary: st out)
  case Nil
  then show ?case by simp
next
  case (Cons name algos)
  let ?st1 = "fst (train_one sk X y_test name st)"
  have mem: "name \<in> set estimators"
    using Cons.prems(1) by (cases "name \<in> set estimators") simp_all
  have fresh: "name \<notin> set (keys (results st))" and rest: "name \<notin> set algos"
    using Cons.prems(2,3) by auto
  have k1: "keys (results ?st1) =
      keys (results st) @ (if \<exists>pr. trained sk y_test name = Inr pr then [name] else [])"
    unfolding train_one_results
    using fresh by (cases "trained sk y_test name") (simp_all add: dict_set_keys)
  have disj: "set algos \<inter> set (keys (results ?st1)) = {}"
    using Cons.prems(3) rest by (auto simp: k1 split: if_splits)
  have "keys (results st') =
     keys (results ?st1) @ filter (\<lambda>n. \<exists>pr. trained sk y_test n = Inr pr) algos"
    using Cons.IH[OF Cons.prems(1)[unfolded train_loop_Cons[OF mem]] _ disj] Cons.prems(2)
    by simp
  then show ?case
    by (simp add: k1)
qed

subsection \<open>Training runs\<close>

lemma trained_fit_failed: "sk_fit sk name = Inl e \<Longrightarrow> trained sk y_test name = Inl e"
  by (simp add: trained_def)

lemma trained_predict_failed:
  "sk_fit sk name = Inr pipe \<Longrightarrow> sk_predict sk pipe = Inl e \<Longrightarrow>
   trained sk y_test name = Inl e"
  by (simp add: trained_def)

lemma trained_ok:
  "sk_fit sk name = Inr pipe \<Longrightarrow> sk_predict sk pipe = Inr ps \<Longrightarrow>
   sk_accuracy_score sk y_test ps = Inr acc \<Longrightarrow>
   trained sk y_test name = Inr (pipe, \<lparr>accuracy = acc, preds = ps\<rparr>)"
  by (simp add: trained_def)


lemma importance_of_failed: "trained sk y_test name = Inl e \<Longrightarrow> importance_of sk X y_test name = None"
  by (simp add: importance_of_def)

lemma train_models_eq:
  assumes "sk_train_test_split sk = Inr (X_test, y_test)"
    and "train_loop sk X y_test algos (empty_store, []) = Inr (st, out)"
  shows "train_models sk X algos ss =
     Inr (ss\<lparr>ss_trained_models := Some (trained_models st),
              ss_results := Some (results st),
              ss_feature_importances := Some (feature_importances st),
              ss_X_test := Some X_test,
              ss_y_test := Some y_test\<rparr>,
          out @ [Success_trained (length (trained_models st))])"
  using assms by (simp add: train_models_def)

lemma empty_store_fields:
  "trained_models empty_store = []" "results empty_store = []"
  "feature_importances empty_store = []"
  by (simp_all add: empty_store_def)

text \<open>
  Claim C4.  With the selection taken from the catalog and the split done, the training
  handler returns and writes the session state.  An algorithm whose fit or predict raises
  gets a warning with its name and the message, and has no entry among the trained
  models, the results or the importance tables.  An algorithm whose fit, predict and
  score return is stored with its pipeline, its predictions and its accuracy, and gets no
  warning.  The stored dictionaries agree: models and results have the same keys, in the
  same order, all of them selected algorithms, and every importance table belongs to a
  stored algorithm.
\<close>

theorem training_failure_isolated:
  assumes "set algos \<subseteq> set estimators"
    and "sk_train_test_split sk = Inr (X_test, y_test)"
  shows "\<exists>tm res fi out.
     train_models sk X algos ss =
       Inr (ss\<lparr>ss_trained_models := Some tm, ss_results := Some res,
                ss_feature_importances := Some fi,
                ss_X_test := Some X_test, ss_y_test := Some y_test\<rparr>,
            out @ [Success_trained (length tm)]) \<and>
     keys tm = keys res \<and>
     set (keys fi) \<subseteq> set (keys res) \<and>
     set (keys res) \<subseteq> set algos \<and>
     (\<forall>name \<in> set algos. \<forall>e.
        sk_fit sk name = Inl e \<or>
        (\<exists>pipe. sk_fit sk name = Inr pipe \<and> sk_predict sk pipe = Inl e) \<longrightarrow>
          Warning_training_failed name e \<in> set out \<and>
          name \<notin> set (keys tm) \<and> name \<notin> set (keys res) \<and> name \<notin> set (keys fi)) \<and>
     (\<forall>name \<in> set algos. \<forall>pipe ps acc.
        sk_fit sk name = Inr pipe \<and> sk_predict sk pipe = Inr ps \<and>
        sk_accuracy_score sk y_test ps = Inr acc \<longrightarrow>
          map_of tm name = Some pipe \<and>
          map_of res name = Some \<lparr>accuracy = acc, preds = ps\<rparr> \<and>
          (\<forall>e. Warning_training_failed name e \<notin> set out))"
proof -
  obtain st out where loop: "train_loop sk X y_test algos (empty_store, []) = Inr (st, out)"
    using train_loop_total[OF assms(1)] by blast
  let ?tm = "trained_models st" and ?res = "results st" and ?fi = "feature_importances st"
  have run: "train_models sk X algos ss =
       Inr (ss\<lparr>ss_trained_models := Some ?tm, ss_results := Some ?res,
                ss_feature_importances := Some ?fi,
                ss_X_test := Some X_test, ss_y_test := Some y_test\<rparr>,
            out @ [Success_trained (length ?tm)])"
    using train_models_eq[OF assms(2) loop] .
  have tm: "map_of ?tm n =
      (if n \<in> set algos then
         (case trained sk y_test n of Inl e \<Rightarrow> None | Inr pr \<Rightarrow> Some (fst pr))
       else None)" for n
    using train_loop_models[OF loop, of n] by (simp add: empty_store_fields split: sum.splits)
  have res: "map_of ?res n =
      (if n \<in> set algos then
         (case trained sk y_test n of Inl e \<Rightarrow> None | Inr pr \<Rightarrow> Some (snd pr))
       else None)" for n
    using train_loop_results[OF loop, of n] by (simp add: empty_store_fields split: sum.splits)
  have fi: "map_of ?fi n =
      (if n \<in> set algos then importance_of sk X y_test n else None)" for n
    using train_loop_importances[OF loop, of n]
    by (simp add: empty_store_fields split: option.splits)
  have msgs: "out = concat (map (\<lambda>n. case trained sk y_test n of
                                   Inl e \<Rightarrow> [Warning_training_failed n e]
                                 | Inr pr \<Rightarrow> []) algos)"
    using train_loop_messages[OF loop] by simp
  have same: "keys ?tm = keys ?res"
    by (rule train_loop_same_keys[OF loop]) (simp add: empty_store_fields keys_def)
  have sub_fi: "set (keys ?fi) \<subseteq> set (keys ?res)"
  proof
    fix n assume "n \<in> set (keys ?fi)"
    then have "map_of ?fi n \<noteq> None" by (simp add: map_of_keys)
    then have n: "n \<in> set algos" and imp: "importance_of sk X y_test n \<noteq> None"
      by (auto simp: fi split: if_splits)
    from imp obtain pr where "trained sk y_test n = Inr pr"
      by (cases "trained sk y_test n") (auto simp: importance_of_failed)
    with n have "map_of ?res n \<noteq> None" by (simp add: res)
    then show "n \<in> set (keys ?res)" by (simp add: map_of_keys)
  qed
  have sub_res: "set (keys ?res) \<subseteq> set algos"
  proof
    fix n assume "n \<in> set (keys ?res)"
    then have "map_of ?res n \<noteq> None" by (simp add: map_of_keys)
    then show "n \<in> set algos" by (auto simp: res split: if_splits)
  qed
  have failed: "Warning_training_failed name e \<in> set out \<and>
          name \<notin> set (keys ?tm) \<and> name \<notin> set (keys ?res) \<and> name \<notin> set (keys ?fi)"
    if name: "name \<in> set algos"
      and bad: "sk_fit sk name = Inl e \<or>
        (\<exists>pipe. sk_fit sk name = Inr pipe \<and> sk_predict sk pipe = Inl e)" for name e
  proof -
    have t: "trained sk y_test name = Inl e"
      using bad by (auto simp: trained_fit_failed trained_predict_failed)
    have w: "Warning_training_failed name e \<in> set out"
      unfolding msgs using name t by force
    have a: "map_of ?tm name = None" by (simp add: tm t)
    have b: "map_of ?res name = None" by (simp add: res t)
    have c: "map_of ?fi name = None" by (simp add: fi t importance_of_failed)
    from w a b c show ?thesis by (simp add: map_of_keys)
  qed
  have stored: "map_of ?tm name = Some pipe \<and>
          map_of ?res name = Some \<lparr>accuracy = acc, preds = ps\<rparr> \<and>
          (\<forall>e. Warning_training_failed name e \<notin> set out)"
    if name: "name \<in> set algos"
      and good: "sk_fit sk name = Inr pipe \<and> sk_predict sk pipe = Inr ps \<and>
        sk_accuracy_score sk y_test ps = Inr acc" for name pipe ps acc
  proof -
    have t: "trained sk y_test name = Inr (pipe, \<lparr>accuracy = acc, preds = ps\<rparr>)"
      using good by (simp add: trained_ok)
    have a: "map_of ?tm name = Some pipe" by (simp add: tm t name)
    have b: "map_of ?res name = Some \<lparr>accuracy = acc, preds = ps\<rparr>" by (simp add: res t name)
    have c: "Warning_training_failed name e \<notin> set out" for e
      unfolding msgs using t by (auto split: sum.splits)
    from a b c show ?thesis by simp
  qed
  from run same sub_fi sub_res failed stored show ?thesis
    by blast
qed

lemma demo_split: "sk_train_test_split demo_sk = Inr (demo_X, [0, 1])"
  by (simp add: demo_sk_def)

lemma demo_algos_in_catalog: "set demo_algos \<subseteq> set estimators"
  by (simp add: demo_algos_def estimators_def)

theorem training_failure_isolated_witness:
  "\<exists>tm res fi out.
     train_models demo_sk demo_X demo_algos new_session =
       Inr (new_session\<lparr>ss_trained_models := Some tm, ss_results := Some res,
                ss_feature_importances := Some fi,
                ss_X_test := Some demo_X, ss_y_test := Some [0, 1]\<rparr>,
            out @ [Success_trained (length tm)]) \<and>
     Warning_training_failed ''SVM'' ''fit failed'' \<in> set out \<and>
     Warning_training_failed ''KNN'' ''predict failed'' \<in> set out \<and>
     ''SVM'' \<notin> set (keys res) \<and> ''KNN'' \<notin> set (keys res) \<and>
     map_of tm ''Naive Bayes'' = Some ''Naive Bayes'' \<and>
     map_of res ''Naive Bayes'' = Some \<lparr>accuracy = 1, preds = [0, 1]\<rparr>"
proof -
  from training_failure_isolated[OF demo_algos_in_catalog demo_split, of demo_X new_session]
  obtain tm res fi out where
    run: "train_models demo_sk demo_X demo_algos new_session =
       Inr (new_session\<lparr>ss_trained_models := Some tm, ss_results := Some res,
                ss_feature_importances := Some fi,
                ss_X_test := Some demo_X, ss_y_test := Some [0, 1]\<rparr>,
            out @ [Success_trained (length tm)])"
    and failed: "\<forall>name \<in> set demo_algos. \<forall>e.
        sk_fit demo_sk name = Inl e \<or>
        (\<exists>pipe. sk_fit demo_sk name = Inr pipe \<and> sk_predict demo_sk pipe = Inl e) \<longrightarrow>
          Warning_training_failed name e \<in> set out \<and>
          name \<notin> set (keys tm) \<and> name \<notin> set (keys res) \<and> name \<notin> set (keys fi)"
    and stored: "\<forall>name \<in> set demo_algos. \<forall>pipe ps acc.
        sk_fit demo_sk name = Inr pipe \<and> sk_predict demo_sk pipe = Inr ps \<and>
        sk_accuracy_score demo_sk [0, 1] ps = Inr acc \<longrightarrow>
          map_of tm name = Some pipe \<and>
          map_of res name = Some \<lparr>accuracy = acc, preds = ps\<rparr> \<and>
          (\<forall>e. Warning_training_failed name e \<notin> set out)"
    by (elim exE conjE)
  have svm: "Warning_training_failed ''SVM'' ''fit failed'' \<in> set out \<and>
      ''SVM'' \<notin> set (keys res)"
    using failed[rule_format, of "''SVM''" "''fit failed''"]
    by (simp add: demo_algos_def demo_sk_def)
  have knn: "Warning_training_failed ''KNN'' ''predict failed'' \<in> set out \<and>
      ''KNN'' \<notin> set (keys res)"
    using failed[rule_format, of "''KNN''" "''predict failed''"]
    by (simp add: demo_algos_def demo_sk_def)
  have nb: "map_of tm ''Naive Bayes'' = Some ''Naive Bayes'' \<and>
      map_of res ''Naive Bayes'' = Some \<lparr>accuracy = 1, preds = [0, 1]\<rparr>"
    using stored[rule_format, of "''Naive Bayes''" "''Naive Bayes''" "[0, 1]" 1]
    by (simp add: demo_algos_def demo_sk_def)
  from run svm knn nb show ?thesis by blast
qed

subsection \<open>Importance tables\<close>






subsection \<open>Importance scores\<close>




subsection \<open>Saving the best model\<close>

lemma save_best_model_Inr:
  assumes "ss_results ss = Some res" and "res \<noteq> []"
    and "ss_trained_models ss = Some tm" and "keys tm = keys res"
  shows "\<exists>k pipe. first_max (\<lambda>x. accuracy (snd x)) res k \<and>
           map_of tm (fst (res ! k)) = Some pipe \<and>
           save_best_model ss files =
             Inr (files(best_model_file \<mapsto> pipe), [Success_saved (fst (res ! k))])"
proof -
  from py_max_first_max[OF assms(2), of "\<lambda>x. accuracy (snd x)"]
  obtain k where k: "first_max (\<lambda>x. accuracy (snd x)) res k"
    and mx: "py_max (\<lambda>x. accuracy (snd x)) res = Inr (res ! k)"
    by blast
  from k have "k < length res" by (simp add: first_max_def)
  then have "fst (res ! k) \<in> set (keys res)" by (simp add: keys_def)
  then have "map_of tm (fst (res ! k)) \<noteq> None"
    using assms(4) by (simp add: map_of_keys)
  then obtain pipe where pipe: "map_of tm (fst (res ! k)) = Some pipe" by blast
  have "save_best_model ss files =
      Inr (files(best_model_file \<mapsto> pipe), [Success_saved (fst (res ! k))])"
    by (simp add: save_best_model_def assms(1,3) mx dict_get_def pipe)
  with k pipe show ?thesis by blast
qed

text \<open>
  Claim C2, as the code has it.  With at least one entry in the results, and the trained
  models stored under the same keys, saving the best model writes, under the fixed file
  name, the pipeline of the entry with the largest accuracy; among entries of equal
  accuracy it is the first in the iteration order of the results.  That order is the
  order in which the algorithms were selected: after a training run on a selection
  without repetitions, the keys of the results are the selected algorithms that trained,
  in the order of the selection.
\<close>

theorem save_best_model_first_max:
  assumes "ss_results ss = Some res" and "res \<noteq> []"
    and "ss_trained_models ss = Some tm" and "keys tm = keys res"
  shows "(\<exists>k pipe.
            k < length res \<and>
            (\<forall>j < length res. accuracy (snd (res ! j)) \<le> accuracy (snd (res ! k))) \<and>
            (\<forall>j < k. accuracy (snd (res ! j)) < accuracy (snd (res ! k))) \<and>
            map_of tm (fst (res ! k)) = Some pipe \<and>
            save_best_model ss files =
              Inr (files(''best_dropout_model.joblib'' \<mapsto> pipe),
                   [Success_saved (fst (res ! k))])) \<and>
         (\<forall>st' out.
            distinct algos \<and>
            train_loop sk X y_test algos (empty_store, []) = Inr (st', out) \<longrightarrow>
              keys (results st') =
                filter (\<lambda>n. \<exists>pr. trained sk y_test n = Inr pr) algos)"
proof
  show "\<exists>k pipe.
            k < length res \<and>
            (\<forall>j < length res. accuracy (snd (res ! j)) \<le> accuracy (snd (res ! k))) \<and>
            (\<forall>j < k. accuracy (snd (res ! j)) < accuracy (snd (res ! k))) \<and>
            map_of tm (fst (res ! k)) = Some pipe \<and>
            save_best_model ss files =
              Inr (files(''best_dropout_model.joblib'' \<mapsto> pipe),
                   [Success_saved (fst (res ! k))])"
    using save_best_model_Inr[OF assms, of files]
    unfolding first_max_def best_model_file_def by blast
  show "\<forall>st' out.
            distinct algos \<and>
            train_loop sk X y_test algos (empty_store, []) = Inr (st', out) \<longrightarrow>
              keys (results st') =
                filter (\<lambda>n. \<exists>pr. trained sk y_test n = Inr pr) algos"
  proof (intro allI impI)
    fix st' out
    assume "distinct algos \<and>
            train_loop sk X y_test algos (empty_store, []) = Inr (st', out)"
    then have d: "distinct algos"
      and run: "train_loop sk X y_test algos (empty_store, []) = Inr (st', out)"
      by simp_all
    from train_loop_order[OF run d]
    show "keys (results st') = filter (\<lambda>n. \<exists>pr. trained sk y_test n = Inr pr) algos"
      by (simp add: empty_store_fields keys_def)
  qed
qed

lemma tie_run:
  "train_loop demo_sk demo_X [0, 1] tie_algos (empty_store, []) =
     Inr (\<lparr>trained_models = [(''Naive Bayes'', ''Naive Bayes''),
                             (''Decision Tree'', ''Decision Tree'')],
           results = tie_results,
           feature_importances = []\<rparr>, [])"
  by (simp add: demo_sk_def tie_algos_def estimators_def train_one_def
      empty_store_def importance_scores_def tie_results_def)

theorem save_best_model_first_max_witness:
  "save_best_model tie_session Map.empty =
     Inr ([''best_dropout_model.joblib'' \<mapsto> ''Naive Bayes''],
          [Success_saved ''Naive Bayes'']) \<and>
   keys tie_results = filter (\<lambda>n. \<exists>pr. trained demo_sk [0, 1] n = Inr pr) tie_algos"
proof -
  let ?tm = "[(''Naive Bayes'', ''Naive Bayes''), (''Decision Tree'', ''Decision Tree'')]"
  let ?st = "\<lparr>trained_models = ?tm, results = tie_results, feature_importances = []\<rparr>"
  have r: "ss_results tie_session = Some tie_results" and ne: "tie_results \<noteq> []"
    and t: "ss_trained_models tie_session = Some ?tm" and ks: "keys ?tm = keys tie_results"
    by (simp_all add: tie_session_def tie_results_def keys_def)
  note both = save_best_model_first_max[OF r ne t ks,
      of Map.empty tie_algos demo_sk demo_X "[0, 1]"]
  from both[THEN conjunct1]
  obtain k pipe where k: "k < length tie_results"
    and first: "\<forall>j < k. accuracy (snd (tie_results ! j)) < accuracy (snd (tie_results ! k))"
    and pipe: "map_of ?tm (fst (tie_results ! k)) = Some pipe"
    and saved: "save_best_model tie_session Map.empty =
             Inr ([''best_dropout_model.joblib'' \<mapsto> pipe],
                  [Success_saved (fst (tie_results ! k))])"
    by blast
  have "k = 0"
  proof (rule ccontr)
    assume "k \<noteq> 0"
    with k have "k = 1" by (simp add: tie_results_def)
    with first[rule_format, of 0] show False by (simp add: tie_results_def)
  qed
  with pipe saved have a: "save_best_model tie_session Map.empty =
     Inr ([''best_dropout_model.joblib'' \<mapsto> ''Naive Bayes''],
          [Success_saved ''Naive Bayes''])"
    by (simp add: tie_results_def)
  have "distinct tie_algos \<and>
      train_loop demo_sk demo_X [0, 1] tie_algos (empty_store, []) = Inr (?st, [])"
    by (intro conjI tie_run) (simp add: tie_algos_def)
  from both[THEN conjunct2, rule_format, OF this]
  have b: "keys tie_results = filter (\<lambda>n. \<exists>pr. trained demo_sk [0, 1] n = Inr pr) tie_algos"
    by simp
  from a b show ?thesis by simp
qed

text \<open>
  The claim as the specification words it fails when the algorithms were selected in
  another order than the catalog's: the two entries tie, the code saves the one trained
  first, the catalog's order names the other.
\<close>

theorem best_by_catalog_counterexample:
  "train_models demo_sk demo_X tie_algos new_session = Inr (tie_session, [Success_trained 2]) \<and>
   save_best_model tie_session Map.empty =
     Inr ([''best_dropout_model.joblib'' \<mapsto> ''Naive Bayes''], [Success_saved ''Naive Bayes'']) \<and>
   best_by_catalog tie_results = Some ''Decision Tree''"
proof (intro conjI)
  show "train_models demo_sk demo_X tie_algos new_session =
      Inr (tie_session, [Success_trained 2])"
    by (simp add: train_models_def demo_sk_def tie_algos_def estimators_def train_one_def
        empty_store_def importance_scores_def new_session_def tie_session_def tie_results_def)
  show "save_best_model tie_session Map.empty =
     Inr ([''best_dropout_model.joblib'' \<mapsto> ''Naive Bayes''], [Success_saved ''Naive Bayes''])"
    by (simp add: save_best_model_def tie_session_def tie_results_def dict_get_def
        best_model_file_def Let_def)
  show "best_by_catalog tie_results = Some ''Decision Tree''"
    by (simp add: best_by_catalog_def tie_results_def estimators_def)
qed

lemma map_of_empty_dict:
  assumes "\<And>n. map_of d n = None"
  shows "d = []"
proof (cases d)
  case Nil
  then show ?thesis .
next
  case (Cons e rest)
  then have "map_of d (fst e) = Some (snd e)" by simp
  with assms[of "fst e"] show ?thesis by simp
qed

text \<open>
  Claim C10.  Saving the best model on a results dictionary that exists but is empty fails
  with the \<^verbatim>\<open>ValueError\<close> of \<^verbatim>\<open>max\<close> on an empty sequence, and nothing is saved or
  reported.  A training run in which every selected algorithm fails leaves exactly that
  state.  With at least one entry the handler returns.
\<close>

theorem save_best_model_empty_results:
  "(ss_results ss = Some [] \<longrightarrow> save_best_model ss files = Inl ValueError) \<and>
   (\<forall>X_test y_test.
      set algos \<subseteq> set estimators \<and> sk_train_test_split sk = Inr (X_test, y_test) \<and>
      (\<forall>n \<in> set algos. \<exists>e. trained sk y_test n = Inl e) \<longrightarrow>
        (\<exists>ss' out. train_models sk X algos ss0 = Inr (ss', out) \<and>
           ss_results ss' = Some [] \<and> save_best_model ss' files = Inl ValueError)) \<and>
   (\<forall>res tm. ss_results ss = Some res \<and> res \<noteq> [] \<and> ss_trained_models ss = Some tm \<and>
      keys tm = keys res \<longrightarrow> (\<exists>r. save_best_model ss files = Inr r))"
proof -
  have empty: "ss_results s = Some [] \<Longrightarrow> save_best_model s files = Inl ValueError" for s :: "'a session_state"
    by (simp add: save_best_model_def)
  have all_fail: "\<exists>ss' out. train_models sk X algos ss0 = Inr (ss', out) \<and>
           ss_results ss' = Some [] \<and> save_best_model ss' files = Inl ValueError"
    if "set algos \<subseteq> set estimators \<and> sk_train_test_split sk = Inr (X_test, y_test) \<and>
      (\<forall>n \<in> set algos. \<exists>e. trained sk y_test n = Inl e)" for X_test y_test
  proof -
    from that have cat: "set algos \<subseteq> set estimators"
      and split: "sk_train_test_split sk = Inr (X_test, y_test)"
      and fail: "\<forall>n \<in> set algos. \<exists>e. trained sk y_test n = Inl e"
      by simp_all
    obtain st out where loop: "train_loop sk X y_test algos (empty_store, []) = Inr (st, out)"
      using train_loop_total[OF cat] by blast
    have "map_of (results st) n = None" for n
      using train_loop_results[OF loop, of n] fail
      by (auto simp: empty_store_fields)
    then have res: "results st = []" by (rule map_of_empty_dict)
    let ?ss' = "ss0\<lparr>ss_trained_models := Some (trained_models st),
              ss_results := Some (results st),
              ss_feature_importances := Some (feature_importances st),
              ss_X_test := Some X_test,
              ss_y_test := Some y_test\<rparr>"
    have run: "train_models sk X algos ss0 =
        Inr (?ss', out @ [Success_trained (length (trained_models st))])"
      by (rule train_models_eq[OF split loop])
    have "ss_results ?ss' = Some []" by (simp add: res)
    with run empty[of ?ss'] show ?thesis by blast
  qed
  have some: "\<exists>r. save_best_model ss files = Inr r"
    if "ss_results ss = Some res \<and> res \<noteq> [] \<and> ss_trained_models ss = Some tm \<and>
      keys tm = keys res" for res tm
  proof -
    from that have "ss_results ss = Some res" "res \<noteq> []" "ss_trained_models ss = Some tm"
      "keys tm = keys res" by simp_all
    from save_best_model_Inr[OF this, of files] show ?thesis by blast
  qed
  from empty[of ss] all_fail some show ?thesis by blast
qed

theorem save_best_model_empty_results_witness:
  "\<exists>ss' out. train_models demo_sk demo_X [''SVM'', ''KNN''] new_session = Inr (ss', out) \<and>
     ss_results ss' = Some [] \<and>
     save_best_model ss' (Map.empty :: string \<rightharpoonup> string) = Inl ValueError"
proof -
  have "set [''SVM'', ''KNN''] \<subseteq> set estimators \<and>
      sk_train_test_split demo_sk = Inr (demo_X, [0, 1]) \<and>
      (\<forall>n \<in> set [''SVM'', ''KNN'']. \<exists>e. trained demo_sk [0, 1] n = Inl e)"
    by (simp add: estimators_def demo_sk_def trained_def)
  from save_best_model_empty_results[THEN conjunct2, THEN conjunct1, rule_format, OF this]
  show ?thesis .
qed

subsection \<open>Prediction form\<close>

lemma big_numbers:
  "str_int 18446744073709551615 = ''18446744073709551615''"
  "str_int 9223372036854775808 = ''9223372036854775808''"
  by (simp_all add: str_int_def str_nat.simps digit_char_def)

text \<open>
  Claim C9 at a column of unsigned 64-bit integers.  The resolver counts the column as
  numeric, so that the pipeline scales it as a number, but the form does not: it offers a
  closed choice among the column's values as strings.
\<close>

theorem form_misses_unsigned_column:
  "feature_table id_frame ''Dropout_Risk'' = Inr id_X \<and>
   numeric_cols id_X = [''Student_ID''] \<and>
   categorical_cols id_X = [] \<and>
   prediction_form two_floats id_session id_X =
     Inr (Some [Selectbox ''Student_ID''
                  [''18446744073709551615'', ''9223372036854775808''] 0])"
proof (intro conjI)
  show "feature_table id_frame ''Dropout_Risk'' = Inr id_X"
    by (simp add: feature_table_def drop_column_def fillna_def fillna_column_def
        column_names_def id_frame_def id_X_def)
  show "numeric_cols id_X = [''Student_ID'']"
    by (simp add: numeric_cols_def id_X_def)
  show "categorical_cols id_X = []"
    by (simp add: categorical_cols_def id_X_def)
  show "prediction_form two_floats id_session id_X =
     Inr (Some [Selectbox ''Student_ID''
                  [''18446744073709551615'', ''9223372036854775808''] 0])"
    by (simp add: prediction_form_def id_session_def id_X_def form_widget_def
        form_numeric_def big_numbers)
qed

text \<open>
  Elsewhere the two tests agree: a column the form treats as a number is numeric for the
  resolver, and an object column is categorical for both.
\<close>

lemma form_numeric_is_number: "form_numeric dt \<Longrightarrow> is_np_number dt"
  by (cases dt) (simp_all add: form_numeric_def)

lemma object_is_choice: "\<not> form_numeric Object \<and> \<not> is_np_number Object"
  by (simp add: form_numeric_def)

lemma resolver_and_form_differ:
  "(is_np_number dt \<and> \<not> form_numeric dt) = (dt = UInt64)"
  by (cases dt) (simp_all add: form_numeric_def)

end
